theory Spec2Isabelle
  imports Main
begin

section \<open>Data model\<close>

text \<open>
  The widget of \<^verbatim>\<open>HttpStatusChecker\<close> (src/unnamed/part\_000, lines 15 to 247) and the
  hook \<^verbatim>\<open>useStatusHistory\<close> (lines 1 to 15 of the same file).

  The two string unions of lines 25 and 26 are datatypes, a \<^verbatim>\<open>StatusEntry\<close> is a record.

  The variable \<^verbatim>\<open>statusCode\<close> is declared \<^verbatim>\<open>number | null\<close>. What it holds at run
  time, \<^verbatim>\<open>null\<close> apart, is a \<open>jsvalue\<close>: a finite Number of integer value (every Number
  the source can produce is one: the result of \<^verbatim>\<open>parseInt\<close> on decimal digits, a value
  of the phrase table, the status of a response), the Number \<^verbatim>\<open>Infinity\<close> (from
  \<^verbatim>\<open>parseInt\<close> on very long inputs), or an object that the phrase table inherits from
  \<^verbatim>\<open>Object.prototype\<close>, named by its key. The same value is stored as the code of the
  entry.
\<close>

datatype jsvalue = Num int | PosInfinity | Inherited string

datatype TrafficLightStatus = Green | Orange | Red | Off

datatype StatusCodeCategory = C1xx | C2xx | C3xx | C4xx | C5xx | Invalid

record StatusEntry =
  code :: jsvalue
  category :: StatusCodeCategory
  timestamp :: int

text \<open>
  What a call of \<^verbatim>\<open>checkStatusCode\<close> does to its collaborators, in order. The log is
  not a state of the component: it is kept so that what the code does \<^emph>\<open>not\<close> call can
  be stated.
\<close>

datatype error = InvalidURL | TransportError

datatype call =
    NewURL string
  | Fetch string
  | ConsoleError error
  | MapLookup string

text \<open>
  The \<^verbatim>\<open>useState\<close> cells of lines 76 to 85 that \<^verbatim>\<open>checkStatusCode\<close> reads or
  writes (the modal and device-width flags play no part in it), with the history of the
  hook and the log of calls.
\<close>

record state =
  inputValue :: string
  trafficLightStatus :: TrafficLightStatus
  statusCategory :: StatusCodeCategory
  isUrl :: bool
  confirmedInput :: string
  history :: "StatusEntry list"
  calls :: "call list"

text \<open>The first render: the initial values given to \<^verbatim>\<open>useState\<close>.\<close>

definition initialState :: state where
  "initialState =
     \<lparr>inputValue = [], trafficLightStatus = Off, statusCategory = Invalid, isUrl = False,
      confirmedInput = [], history = [], calls = []\<rparr>"

text \<open>
  The platform the component runs on, as parameters: \<^verbatim>\<open>new URL(s)\<close> gives the
  \<^verbatim>\<open>href\<close> of the parsed URL or throws (\<open>None\<close>); \<^verbatim>\<open>fetch(u, {method: 'HEAD'})\<close>
  resolves with a response, of which only \<^verbatim>\<open>status\<close> is read, or rejects
  (\<open>None\<close>); \<^verbatim>\<open>Date.now()\<close> is the clock.
\<close>

record env =
  newURL :: "string \<Rightarrow> string option"
  fetch :: "string \<Rightarrow> int option"
  now :: int

section \<open>Strings\<close>

text \<open>
  A JavaScript string is modelled as a \<open>string\<close> whose characters are the code units
  U+0000 to U+00FF. On these, \<^verbatim>\<open>trim\<close> strips tab, line feed, vertical tab, form feed,
  carriage return, space and the no-break space; \<^verbatim>\<open>toLowerCase\<close> moves A to Z and
  the Latin-1 capitals (U+00C0 to U+00DE, the multiplication sign apart) up by 32; the
  class \<^verbatim>\<open>\d\<close> is 0 to 9.
\<close>

definition isWhiteSpace :: "char \<Rightarrow> bool" where
  "isWhiteSpace c = (of_char c \<in> {9, 10, 11, 12, 13, 32, 160 :: nat})"

definition trim :: "string \<Rightarrow> string" where
  "trim s = rev (dropWhile isWhiteSpace (rev (dropWhile isWhiteSpace s)))"

definition lowerChar :: "char \<Rightarrow> char" where
  "lowerChar c =
     (let n = (of_char c :: nat) in
      if (65 \<le> n \<and> n \<le> 90) \<or> (192 \<le> n \<and> n \<le> 222 \<and> n \<noteq> 215)
      then char_of (n + 32) else c)"

definition toLowerCase :: "string \<Rightarrow> string" where
  "toLowerCase s = map lowerChar s"

definition isDigit :: "char \<Rightarrow> bool" where
  "isDigit c = (48 \<le> (of_char c :: nat) \<and> (of_char c :: nat) \<le> 57)"

text \<open>\<^verbatim>\<open>/^\d+$/.test(s)\<close>: one digit at least, and nothing else in the whole string.\<close>

definition digitsOnly :: "string \<Rightarrow> bool" where
  "digitsOnly s = (s \<noteq> [] \<and> list_all isDigit s)"

text \<open>
  \<^verbatim>\<open>parseInt(s, 10)\<close>, which the source calls on strings of digits only: the decimal
  value, most significant digit first, as a Number. A Number is a double: an integer
  below \<open>2 ^ 53\<close> is itself; a larger one is rounded to 53 significant bits, to the
  nearest and to the even one of two equally near, and is \<^verbatim>\<open>Infinity\<close> when that
  reaches \<open>2 ^ 1024\<close>. (The language lets an implementation read the digits after the
  twentieth as zeros; the engines round the exact value, as here.)
\<close>

definition decimal :: "string \<Rightarrow> int" where
  "decimal s = foldl (\<lambda>n c. 10 * n + (int (of_char c) - 48)) 0 s"

text \<open>The number of bits of a positive integer.\<close>

function bitLength :: "int \<Rightarrow> nat" where
  "bitLength n = (if n \<le> 0 then 0 else Suc (bitLength (n div 2)))"
  by pat_completeness auto
termination
  by (relation "measure nat") auto

definition toNumber :: "int \<Rightarrow> jsvalue" where
  "toNumber n =
     (if n < 2 ^ 53 then Num n
      else
        (let k = bitLength n - 53;
             q = n div 2 ^ k;
             r = n mod 2 ^ k;
             v = (if 2 ^ k < 2 * r \<or> (2 * r = 2 ^ k \<and> odd q) then q + 1 else q) * 2 ^ k
         in if 2 ^ 1024 \<le> v then PosInfinity else Num v))"

definition parseInt :: "string \<Rightarrow> jsvalue" where
  "parseInt s = toNumber (decimal s)"

section \<open>The phrase table\<close>

text \<open>
  Lines 28 to 73, in the order of the source: the own properties of the object. The keys
  are pairwise distinct, so the first match of \<open>map_of\<close> is the property read.
\<close>

definition statusCodeMap :: "(string \<times> int) list" where
  "statusCodeMap =
     [(''continue'', 100),
      (''switching protocols'', 101),
      (''processing'', 102),
      (''early hints'', 103),
      (''ok'', 200),
      (''created'', 201),
      (''accepted'', 202),
      (''non-authoritative information'', 203),
      (''no content'', 204),
      (''reset content'', 205),
      (''partial content'', 206),
      (''multiple choices'', 300),
      (''moved permanently'', 301),
      (''found'', 302),
      (''see other'', 303),
      (''not modified'', 304),
      (''temporary redirect'', 307),
      (''permanent redirect'', 308),
      (''bad request'', 400),
      (''unauthorized'', 401),
      (''payment required'', 402),
      (''forbidden'', 403),
      (''not found'', 404),
      (''method not allowed'', 405),
      (''not acceptable'', 406),
      (''request timeout'', 408),
      (''conflict'', 409),
      (''gone'', 410),
      (''internal error'', 500),
      (''internal server error'', 500),
      (''not implemented'', 501),
      (''bad gateway'', 502),
      (''service unavailable'', 503),
      (''gateway timeout'', 504),
      (''http version not supported'', 505)]"

text \<open>
  The table is an object literal, so a key that is not its own is read from
  \<^verbatim>\<open>Object.prototype\<close>. The keys there that a lower-case string can hit are
  \<^verbatim>\<open>constructor\<close> (the function \<^verbatim>\<open>Object\<close>) and \<^verbatim>\<open>__proto__\<close> (the prototype
  itself); every other one has a capital letter in its name.
\<close>

definition inheritedKeys :: "string list" where
  "inheritedKeys = [''constructor'', ''__proto__'']"

text \<open>
  Lines 132 and 133: \<^verbatim>\<open>statusCodeMap[inputValue.toLowerCase().trim()] || null\<close>. A
  missing key reads \<^verbatim>\<open>undefined\<close>, and \<^verbatim>\<open>||\<close> turns it, like a value 0, into
  \<^verbatim>\<open>null\<close>; an inherited object is truthy and is kept.
\<close>

definition normalize :: "string \<Rightarrow> string" where
  "normalize input = trim (toLowerCase input)"

definition lookupPhrase :: "string \<Rightarrow> jsvalue option" where
  "lookupPhrase input =
     (case map_of statusCodeMap (normalize input) of
        None \<Rightarrow>
          if normalize input \<in> set inheritedKeys then Some (Inherited (normalize input))
          else None
      | Some v \<Rightarrow> if v = 0 then None else Some (Num v))"

section \<open>The history hook\<close>

text \<open>
  Line 8: \<^verbatim>\<open>setHistory(prev => [...prev, status].slice(-10))\<close>. A negative start counts
  from the end and stops at the front, which is the truncating subtraction of \<open>nat\<close>.
\<close>

definition addStatus :: "StatusEntry list \<Rightarrow> StatusEntry \<Rightarrow> StatusEntry list" where
  "addStatus prev status = (let xs = prev @ [status] in drop (length xs - 10) xs)"

section \<open>The URL probe\<close>

definition proxy :: string where
  "proxy = ''https://cors-anywhere.herokuapp.com/''"

text \<open>
  Lines 233 to 239, the body of the \<^verbatim>\<open>try\<close>: either statement before
  \<^verbatim>\<open>setIsUrl(true)\<close> may throw, and then the flag is not written.
\<close>

definition urlRequest_try :: "env \<Rightarrow> string \<Rightarrow> state \<Rightarrow> (error + int) \<times> state" where
  "urlRequest_try e input s =
     (let s1 = s\<lparr>calls := calls s @ [NewURL (trim input)]\<rparr> in
      case newURL e (trim input) of
        None \<Rightarrow> (Inl InvalidURL, s1)
      | Some href \<Rightarrow>
          (let s2 = s1\<lparr>calls := calls s1 @ [Fetch (proxy @ href)]\<rparr> in
           case fetch e (proxy @ href) of
             None \<Rightarrow> (Inl TransportError, s2)
           | Some status \<Rightarrow> (Inr status, s2\<lparr>isUrl := True\<rparr>)))"

text \<open>
  Lines 231 to 244: the \<^verbatim>\<open>catch\<close> logs the error and returns \<^verbatim>\<open>null\<close>. The result
  type leaves room for an exception that leaves the function (\<open>Inl\<close>).
\<close>

definition urlRequest :: "env \<Rightarrow> string \<Rightarrow> state \<Rightarrow> (error + int option) \<times> state" where
  "urlRequest e input s =
     (case urlRequest_try e input s of
        (Inl err, s1) \<Rightarrow> (Inr None, s1\<lparr>calls := calls s1 @ [ConsoleError err]\<rparr>)
      | (Inr status, s1) \<Rightarrow> (Inr (Some status), s1))"

section \<open>The check\<close>

text \<open>
  Lines 122 to 135, the three strategies that fill \<^verbatim>\<open>statusCode\<close>. The pattern is
  tested on \<^verbatim>\<open>inputValue\<close> as it is; \<^verbatim>\<open>await\<close> throws again what the probe threw.
\<close>

definition resolveCode :: "env \<Rightarrow> string \<Rightarrow> state \<Rightarrow> (error + jsvalue option) \<times> state" where
  "resolveCode e input s =
     (if digitsOnly input then (Inr (Some (parseInt input)), s\<lparr>isUrl := False\<rparr>)
      else
        case urlRequest e input s of
          (Inl err, s1) \<Rightarrow> (Inl err, s1)
        | (Inr (Some status), s1) \<Rightarrow> (Inr (Some (Num status)), s1)
        | (Inr None, s1) \<Rightarrow>
            (Inr (lookupPhrase input), s1\<lparr>calls := calls s1 @ [MapLookup (normalize input)]\<rparr>))"

text \<open>
  The comparisons \<^verbatim>\<open>v >= k\<close> and \<^verbatim>\<open>v < k\<close> of lines 142 to 154. An inherited object
  converts to \<^verbatim>\<open>NaN\<close>, for which every comparison is false.
\<close>

fun jsGe :: "jsvalue \<Rightarrow> int \<Rightarrow> bool" where
  "jsGe (Num n) k = (k \<le> n)"
| "jsGe PosInfinity k = True"
| "jsGe (Inherited key) k = False"

fun jsLt :: "jsvalue \<Rightarrow> int \<Rightarrow> bool" where
  "jsLt (Num n) k = (n < k)"
| "jsLt PosInfinity k = False"
| "jsLt (Inherited key) k = False"

text \<open>
  Lines 138 to 164 without the call of \<^verbatim>\<open>addStatus\<close>: the light and the category
  written for a value of \<^verbatim>\<open>statusCode\<close>, \<open>None\<close> being \<^verbatim>\<open>null\<close>.
\<close>

definition classify :: "jsvalue option \<Rightarrow> TrafficLightStatus \<times> StatusCodeCategory" where
  "classify statusCode =
     (case statusCode of
        Some c \<Rightarrow>
          if jsGe c 100 \<and> jsLt c 200 then (Green, C1xx)
          else if jsGe c 200 \<and> jsLt c 300 then (Green, C2xx)
          else if jsGe c 300 \<and> jsLt c 400 then (Green, C3xx)
          else if jsGe c 400 \<and> jsLt c 500 then (Red, C4xx)
          else if jsGe c 500 \<and> jsLt c 600 then (Red, C5xx)
          else (Orange, Invalid)
      | None \<Rightarrow> (Orange, Invalid))"

text \<open>
  Line 140: the entry handed to \<^verbatim>\<open>addStatus\<close>. Its category is the variable
  \<^verbatim>\<open>statusCategory\<close> of the render the handler belongs to, read before any setter of
  this call takes effect: the category of the state the check starts from.
\<close>

definition newEntry :: "env \<Rightarrow> state \<Rightarrow> jsvalue \<Rightarrow> StatusEntry" where
  "newEntry e s c = \<lparr>code = c, category = statusCategory s, timestamp = now e\<rparr>"

text \<open>
  Lines 109 to 165. The result is how the promise settles (\<open>Inl\<close>: rejected with an
  exception) and the state after the setters have taken effect.
\<close>

definition checkStatusCode :: "env \<Rightarrow> state \<Rightarrow> (error + unit) \<times> state" where
  "checkStatusCode e s =
     (if trim (inputValue s) = [] then
        (Inr (), s\<lparr>trafficLightStatus := Off, statusCategory := Invalid\<rparr>)
      else
        case resolveCode e (inputValue s) (s\<lparr>confirmedInput := inputValue s\<rparr>) of
          (Inl err, s1) \<Rightarrow> (Inl err, s1)
        | (Inr statusCode, s1) \<Rightarrow>
            (let s2 = (case statusCode of
                         Some c \<Rightarrow> s1\<lparr>history := addStatus (history s1) (newEntry e s c)\<rparr>
                       | None \<Rightarrow> s1)
             in (Inr (), s2\<lparr>trafficLightStatus := fst (classify statusCode),
                            statusCategory := snd (classify statusCode)\<rparr>)))"

text \<open>Line 180: when the button "Open URL in a new tab" is rendered.\<close>

definition showOpenUrlButton :: "state \<Rightarrow> bool" where
  "showOpenUrlButton s = (trafficLightStatus s = Green \<and> isUrl s)"

text \<open>Lines 105 to 107: typing into the input field.\<close>

definition handleInputChange :: "string \<Rightarrow> state \<Rightarrow> state" where
  "handleInputChange v s = s\<lparr>inputValue := v\<rparr>"

section \<open>What a check resolves to\<close>

text \<open>
  The value the probe returns and the value left in \<^verbatim>\<open>statusCode\<close> at line 136, read
  off the functions above at the first render; neither depends on the state the check
  starts from (lemmas \<open>urlRequest_result\<close> and \<open>resolveCode_result\<close>).
\<close>

definition probe :: "env \<Rightarrow> string \<Rightarrow> int option" where
  "probe e input = (case fst (urlRequest e input initialState) of Inr r \<Rightarrow> r | Inl err \<Rightarrow> None)"

definition resolve :: "env \<Rightarrow> string \<Rightarrow> jsvalue option" where
  "resolve e input = (case fst (resolveCode e input initialState) of Inr r \<Rightarrow> r | Inl err \<Rightarrow> None)"

section \<open>Collaborators of the test suite\<close>

text \<open>
  The two stubs of \<^verbatim>\<open>fetch\<close> in the tests of src/unnamed/part\_001 (lines 134 to 140:
  resolves with status 200; line 160: rejects), with a URL parser that accepts the one
  absolute URL the tests type and rejects every other string.
\<close>

definition exampleURL :: "string \<Rightarrow> string option" where
  "exampleURL u = (if u = ''https://example.com'' then Some ''https://example.com/'' else None)"

definition fetchResolves :: env where
  "fetchResolves = \<lparr>newURL = exampleURL, fetch = (\<lambda>u. Some 200), now = 0\<rparr>"

definition fetchRejects :: env where
  "fetchRejects = \<lparr>newURL = exampleURL, fetch = (\<lambda>u. None), now = 0\<rparr>"

section \<open>The probe and the resolution as functions of the input\<close>

declare bitLength.simps [simp del]

lemma urlRequest_try_fst:
  "fst (urlRequest_try e input s) =
     (case newURL e (trim input) of
        None \<Rightarrow> Inl InvalidURL
      | Some href \<Rightarrow> (case fetch e (proxy @ href) of None \<Rightarrow> Inl TransportError | Some st \<Rightarrow> Inr st))"
  by (simp add: urlRequest_try_def Let_def split: option.splits)

lemma probe_eq:
  "probe e input =
     (case newURL e (trim input) of None \<Rightarrow> None | Some href \<Rightarrow> fetch e (proxy @ href))"
  by (simp add: probe_def urlRequest_def urlRequest_try_def Let_def split: option.splits)

lemma urlRequest_result: "fst (urlRequest e input s) = Inr (probe e input)"
  by (simp add: probe_eq urlRequest_def urlRequest_try_def Let_def split: option.splits)

lemma urlRequest_isUrl:
  "isUrl (snd (urlRequest e input s)) = (if probe e input = None then isUrl s else True)"
  by (simp add: probe_eq urlRequest_def urlRequest_try_def Let_def split: option.splits)

lemma urlRequest_frame:
  "history (snd (urlRequest e input s)) = history s
   \<and> inputValue (snd (urlRequest e input s)) = inputValue s
   \<and> confirmedInput (snd (urlRequest e input s)) = confirmedInput s
   \<and> trafficLightStatus (snd (urlRequest e input s)) = trafficLightStatus s
   \<and> statusCategory (snd (urlRequest e input s)) = statusCategory s"
  by (simp add: urlRequest_def urlRequest_try_def Let_def split: option.splits)

lemma resolve_eq:
  "resolve e input =
     (if digitsOnly input then Some (parseInt input)
      else case probe e input of Some st \<Rightarrow> Some (Num st) | None \<Rightarrow> lookupPhrase input)"
proof (cases "urlRequest e input initialState")
  case (Pair r s1)
  with urlRequest_result [of e input initialState] have "r = Inr (probe e input)"
    by simp
  with Pair show ?thesis
    by (simp add: resolve_def resolveCode_def split: option.splits)
qed

lemma resolveCode_result: "fst (resolveCode e input s) = Inr (resolve e input)"
proof (cases "urlRequest e input s")
  case (Pair r s1)
  with urlRequest_result [of e input s] have "r = Inr (probe e input)"
    by simp
  with Pair show ?thesis
    by (simp add: resolve_eq resolveCode_def split: option.splits)
qed

lemma resolveCode_isUrl:
  "isUrl (snd (resolveCode e input s)) =
     (if digitsOnly input then False else if probe e input = None then isUrl s else True)"
  using urlRequest_result [of e input s] urlRequest_isUrl [of e input s]
  by (auto simp add: resolveCode_def split: prod.splits sum.splits option.splits)

lemma resolveCode_frame:
  "history (snd (resolveCode e input s)) = history s
   \<and> inputValue (snd (resolveCode e input s)) = inputValue s
   \<and> confirmedInput (snd (resolveCode e input s)) = confirmedInput s
   \<and> trafficLightStatus (snd (resolveCode e input s)) = trafficLightStatus s
   \<and> statusCategory (snd (resolveCode e input s)) = statusCategory s"
  using urlRequest_frame [of e input s]
  by (auto simp add: resolveCode_def split: prod.splits sum.splits option.splits)


lemma checkStatusCode_classified:
  "trim (inputValue s) \<noteq> [] \<Longrightarrow>
   trafficLightStatus (snd (checkStatusCode e s)) = fst (classify (resolve e (inputValue s)))
   \<and> statusCategory (snd (checkStatusCode e s)) = snd (classify (resolve e (inputValue s)))"
  using resolveCode_result [of e "inputValue s" "s\<lparr>confirmedInput := inputValue s\<rparr>"]
  by (auto simp add: checkStatusCode_def Let_def split: prod.splits sum.splits)

lemma checkStatusCode_history:
  "trim (inputValue s) \<noteq> [] \<Longrightarrow>
   history (snd (checkStatusCode e s)) =
     (case resolve e (inputValue s) of
        None \<Rightarrow> history s
      | Some c \<Rightarrow> addStatus (history s) (newEntry e s c))"
  using resolveCode_result [of e "inputValue s" "s\<lparr>confirmedInput := inputValue s\<rparr>"]
    resolveCode_frame [of e "inputValue s" "s\<lparr>confirmedInput := inputValue s\<rparr>"]
  by (auto simp add: checkStatusCode_def Let_def split: prod.splits sum.splits option.splits)

lemma checkStatusCode_isUrl:
  "trim (inputValue s) \<noteq> [] \<Longrightarrow>
   isUrl (snd (checkStatusCode e s)) =
     (if digitsOnly (inputValue s) then False
      else if probe e (inputValue s) = None then isUrl s else True)"
  using resolveCode_isUrl [of e "inputValue s" "s\<lparr>confirmedInput := inputValue s\<rparr>"]
  by (auto simp add: checkStatusCode_def Let_def split: prod.splits sum.splits option.splits)

section \<open>Trimming and lower case\<close>

lemma trim_eq_Nil: "(trim s = []) = list_all isWhiteSpace s"
proof
  assume "trim s = []"
  then have all: "\<forall>x\<in>set (dropWhile isWhiteSpace s). isWhiteSpace x"
    by (simp add: trim_def dropWhile_eq_Nil_conv)
  have "dropWhile isWhiteSpace s = []"
  proof (rule ccontr)
    assume ne: "dropWhile isWhiteSpace s \<noteq> []"
    then have "\<not> isWhiteSpace (hd (dropWhile isWhiteSpace s))"
      by (rule hd_dropWhile)
    moreover from ne have "hd (dropWhile isWhiteSpace s) \<in> set (dropWhile isWhiteSpace s)"
      by simp
    ultimately show False using all by blast
  qed
  then show "list_all isWhiteSpace s"
    by (simp add: dropWhile_eq_Nil_conv list_all_iff)
next
  assume "list_all isWhiteSpace s"
  then have "dropWhile isWhiteSpace s = []"
    by (simp add: dropWhile_eq_Nil_conv list_all_iff)
  then show "trim s = []"
    by (simp del: dropWhile_eq_Nil_conv add: trim_def)
qed

lemma trim_pad:
  assumes "list_all isWhiteSpace u" and "list_all isWhiteSpace v"
  shows "trim (u @ s @ v) = trim s"
proof -
  from assms(1) have "dropWhile isWhiteSpace (u @ s @ v) = dropWhile isWhiteSpace (s @ v)"
    by (simp add: list_all_iff dropWhile_append2)
  show ?thesis
  proof (cases "list_all isWhiteSpace s")
    case True
    with assms have "list_all isWhiteSpace (u @ s @ v)" by simp
    with True show ?thesis by (simp only: trim_eq_Nil [THEN iffD2])
  next
    case False
    then obtain x where x: "x \<in> set s" "\<not> isWhiteSpace x"
      by (auto simp add: list_all_iff)
    from assms(1) have "dropWhile isWhiteSpace (u @ s @ v) = dropWhile isWhiteSpace (s @ v)"
      by (simp add: list_all_iff dropWhile_append2)
    also from x have "\<dots> = dropWhile isWhiteSpace s @ v"
      by (simp add: dropWhile_append1)
    finally have "rev (dropWhile isWhiteSpace (u @ s @ v)) = rev v @ rev (dropWhile isWhiteSpace s)"
      by simp
    moreover from assms(2) have "dropWhile isWhiteSpace (rev v @ rev (dropWhile isWhiteSpace s))
        = dropWhile isWhiteSpace (rev (dropWhile isWhiteSpace s))"
      by (intro dropWhile_append2) (simp add: list_all_iff)
    ultimately show ?thesis by (simp add: trim_def)
  qed
qed

lemma of_char_lowerChar:
  "(of_char (lowerChar c) :: nat) =
     (if (65 \<le> (of_char c :: nat) \<and> (of_char c :: nat) \<le> 90)
         \<or> (192 \<le> (of_char c :: nat) \<and> (of_char c :: nat) \<le> 222 \<and> (of_char c :: nat) \<noteq> 215)
      then of_char c + 32 else of_char c)"
  by (auto simp add: lowerChar_def Let_def)

lemma isWhiteSpace_lowerChar: "isWhiteSpace (lowerChar c) = isWhiteSpace c"
  by (auto simp add: isWhiteSpace_def of_char_lowerChar)

lemma lowerChar_idem: "lowerChar (lowerChar c) = lowerChar c"
proof -
  have "(of_char (lowerChar (lowerChar c)) :: nat) = of_char (lowerChar c)"
    by (auto simp add: of_char_lowerChar)
  then show ?thesis by simp
qed

lemma toLowerCase_idem: "toLowerCase (toLowerCase s) = toLowerCase s"
  by (simp add: toLowerCase_def lowerChar_idem)

lemma toLowerCase_append: "toLowerCase (u @ v) = toLowerCase u @ toLowerCase v"
  by (simp add: toLowerCase_def)

lemma list_all_isWhiteSpace_toLowerCase:
  "list_all isWhiteSpace (toLowerCase u) = list_all isWhiteSpace u"
  by (simp add: toLowerCase_def list_all_iff isWhiteSpace_lowerChar)

lemma normalize_pad:
  "list_all isWhiteSpace u \<Longrightarrow> list_all isWhiteSpace v \<Longrightarrow> normalize (u @ s @ v) = normalize s"
  by (simp add: normalize_def toLowerCase_append trim_pad list_all_isWhiteSpace_toLowerCase)

lemma normalize_case: "toLowerCase s = toLowerCase t \<Longrightarrow> normalize s = normalize t"
  by (simp add: normalize_def)

section \<open>The history after any number of appends\<close>

lemma addStatus_length: "length (addStatus prev status) = min 10 (Suc (length prev))"
  by (simp add: addStatus_def Let_def)

lemma foldl_addStatus: "foldl addStatus [] es = drop (length es - 10) es"
proof (induction es rule: rev_induct)
  case Nil
  then show ?case by simp
next
  case (snoc x xs)
  have "a - (a - 10 + 9) + (a - 10) = a - 9" for a :: nat
    by arith
  with snoc show ?case by (simp add: addStatus_def Let_def)
qed

lemma addStatus_eq: "addStatus prev status = drop (length prev - 9) prev @ [status]"
  by (simp add: addStatus_def Let_def)

section \<open>The numeric strategy\<close>

lemma numeric_strategy:
  "digitsOnly input \<Longrightarrow> resolveCode e input s = (Inr (Some (parseInt input)), s\<lparr>isUrl := False\<rparr>)"
  by (simp add: resolveCode_def)

lemma parseInt_small: "digitsOnly ''9999'' \<and> parseInt ''9999'' = Num 9999"
  by code_simp

lemma parseInt_rounds:
  "parseInt ''9007199254740992'' = Num 9007199254740992
   \<and> parseInt ''9007199254740993'' = Num 9007199254740992
   \<and> parseInt ''9007199254740995'' = Num 9007199254740996
   \<and> parseInt ''123456789012345678901234567890'' = Num 123456789012345677877719597056"
  by code_simp

lemma parseInt_overflows: "parseInt (CHR ''1'' # replicate 309 (CHR ''0'')) = PosInfinity"
  by code_simp

lemma history_after_check:
  "(trim (inputValue s) \<noteq> [] \<and> resolve e (inputValue s) = Some v \<longrightarrow>
      history (snd (checkStatusCode e s)) = drop (length (history s) - 9) (history s) @ [newEntry e s v]
      \<and> code (newEntry e s v) = v)
   \<and> (trim (inputValue s) = [] \<or> resolve e (inputValue s) = None \<longrightarrow>
      history (snd (checkStatusCode e s)) = history s)"
proof -
  have grows: "history (snd (checkStatusCode e s))
      = drop (length (history s) - 9) (history s) @ [newEntry e s v]"
    if "trim (inputValue s) \<noteq> []" and "resolve e (inputValue s) = Some v"
    using that by (simp add: checkStatusCode_history addStatus_eq)
  have blank: "history (snd (checkStatusCode e s)) = history s" if "trim (inputValue s) = []"
    using that by (simp add: checkStatusCode_def)
  have absent: "history (snd (checkStatusCode e s)) = history s"
    if "trim (inputValue s) \<noteq> []" and "resolve e (inputValue s) = None"
    using that by (simp add: checkStatusCode_history)
  have entry: "code (newEntry e s v) = v"
    by (simp add: newEntry_def)
  from grows blank absent entry show ?thesis
    by blast
qed

section \<open>The claims\<close>

text \<open>
  C1. The classification is total and follows the ranges: a code from 100 to 399 shows
  green, with category 1xx, 2xx or 3xx after its hundred; a code from 400 to 599 shows
  red, with category 4xx or 5xx; every other integer, and no code at all, is invalid and
  shows orange, and so is every value that is no integer (\<^verbatim>\<open>Infinity\<close>, an inherited
  object). It is the classification the check displays: for an input that is not
  blank, the light and the category after \<open>checkStatusCode\<close> are those of what the
  input resolves to.
\<close>

theorem classify_ranges:
  "(100 \<le> c \<and> c \<le> 199 \<longrightarrow> classify (Some (Num c)) = (Green, C1xx))
   \<and> (200 \<le> c \<and> c \<le> 299 \<longrightarrow> classify (Some (Num c)) = (Green, C2xx))
   \<and> (300 \<le> c \<and> c \<le> 399 \<longrightarrow> classify (Some (Num c)) = (Green, C3xx))
   \<and> (400 \<le> c \<and> c \<le> 499 \<longrightarrow> classify (Some (Num c)) = (Red, C4xx))
   \<and> (500 \<le> c \<and> c \<le> 599 \<longrightarrow> classify (Some (Num c)) = (Red, C5xx))
   \<and> (c < 100 \<or> 599 < c \<longrightarrow> classify (Some (Num c)) = (Orange, Invalid))
   \<and> classify None = (Orange, Invalid)
   \<and> classify (Some PosInfinity) = (Orange, Invalid)
   \<and> classify (Some (Inherited key)) = (Orange, Invalid)
   \<and> (trim (inputValue s) \<noteq> [] \<longrightarrow>
        (trafficLightStatus (snd (checkStatusCode e s)), statusCategory (snd (checkStatusCode e s)))
          = classify (resolve e (inputValue s)))"
  using checkStatusCode_classified [of s e]
  by (simp add: classify_def split: option.splits)

theorem classify_ranges_witness:
  "classify (Some (Num 100)) = (Green, C1xx)
   \<and> classify (Some (Num 299)) = (Green, C2xx)
   \<and> classify (Some (Num 300)) = (Green, C3xx)
   \<and> classify (Some (Num 404)) = (Red, C4xx)
   \<and> classify (Some (Num 599)) = (Red, C5xx)
   \<and> classify (Some (Num 99)) = (Orange, Invalid)
   \<and> classify (Some (Num 600)) = (Orange, Invalid)
   \<and> trim (inputValue (handleInputChange ''503'' initialState)) \<noteq> []
   \<and> resolve fetchRejects (inputValue (handleInputChange ''503'' initialState)) = Some (Num 503)
   \<and> trafficLightStatus (snd (checkStatusCode fetchRejects (handleInputChange ''503'' initialState))) = Red
   \<and> statusCategory (snd (checkStatusCode fetchRejects (handleInputChange ''503'' initialState))) = C5xx"
proof -
  let ?s = "handleInputChange ''503'' initialState"
  note at_503 = classify_ranges [where c = 503 and e = fetchRejects and s = ?s]
  have t: "trim (inputValue ?s) \<noteq> []"
    by code_simp
  have r: "resolve fetchRejects (inputValue ?s) = Some (Num 503)"
    by code_simp
  have c: "classify (Some (Num 503)) = (Red, C5xx)"
    using at_503 by simp
  from at_503 t
  have "(trafficLightStatus (snd (checkStatusCode fetchRejects ?s)),
         statusCategory (snd (checkStatusCode fetchRejects ?s)))
        = classify (resolve fetchRejects (inputValue ?s))"
    by blast
  then have shown: "trafficLightStatus (snd (checkStatusCode fetchRejects ?s)) = Red
      \<and> statusCategory (snd (checkStatusCode fetchRejects ?s)) = C5xx"
    by (simp add: r c)
  have "classify (Some (Num 100)) = (Green, C1xx)"
    using classify_ranges [where c = 100] by simp
  moreover have "classify (Some (Num 299)) = (Green, C2xx)"
    using classify_ranges [where c = 299] by simp
  moreover have "classify (Some (Num 300)) = (Green, C3xx)"
    using classify_ranges [where c = 300] by simp
  moreover have "classify (Some (Num 404)) = (Red, C4xx)"
    using classify_ranges [where c = 404] by simp
  moreover have "classify (Some (Num 599)) = (Red, C5xx)"
    using classify_ranges [where c = 599] by simp
  moreover have "classify (Some (Num 99)) = (Orange, Invalid)"
    using classify_ranges [where c = 99] by simp
  moreover have "classify (Some (Num 600)) = (Orange, Invalid)"
    using classify_ranges [where c = 600] by simp
  ultimately show ?thesis
    using t r shown by blast
qed

text \<open>
  C2. However many entries are appended, the history never holds more than ten: one
  append gives ten entries at most from any history, and appending \<open>es\<close> one after the
  other to the empty history of the first render leaves exactly the last ten of \<open>es\<close>
  (all of them when there are fewer), in the order they were appended, the oldest
  dropped first.
\<close>

theorem history_bounded:
  "length (addStatus prev status) \<le> 10
   \<and> length (foldl addStatus [] es) \<le> 10
   \<and> foldl addStatus [] es = drop (length es - 10) es"
  by (simp add: addStatus_length foldl_addStatus)

text \<open>
  C3. The claim: an appended entry carries the category of its own code. The code at
  line 140 appends the entry before the category is computed and fills it with the
  variable \<open>statusCategory\<close> of the current render. On the first check of the input
  200 the entry is \<open>(200, invalid)\<close>, while 200 classifies as 2xx.
\<close>

theorem stale_category_in_entry:
  "history (snd (checkStatusCode fetchResolves (handleInputChange ''200'' initialState)))
     = [\<lparr>code = Num 200, category = Invalid, timestamp = 0\<rparr>]
   \<and> snd (classify (Some (Num 200))) = C2xx"
  by code_simp

text \<open>
  C4. The claim: an input whose trimmed form is all digits resolves to that number by the
  numeric strategy alone. The pattern of line 123 is tested on the input as typed, so
  the input 200 with a leading space, whose trimmed form is all digits, misses the
  numeric strategy: the URL parser is called on it, then the phrase table, and no code
  is resolved.
\<close>

theorem padded_digits_not_parsed:
  "digitsOnly (trim '' 200'')
   \<and> \<not> digitsOnly '' 200''
   \<and> resolve fetchRejects '' 200'' = None
   \<and> calls (snd (checkStatusCode fetchRejects (handleInputChange '' 200'' initialState)))
       = [NewURL ''200'', ConsoleError InvalidURL, MapLookup ''200'']
   \<and> trafficLightStatus (snd (checkStatusCode fetchRejects (handleInputChange '' 200'' initialState))) = Orange
   \<and> history (snd (checkStatusCode fetchRejects (handleInputChange '' 200'' initialState))) = []"
  by code_simp

text \<open>
  C5. For an input that is empty or all white space, \<open>checkStatusCode\<close> returns at
  once: the light is off and the category invalid, nothing is appended to the history,
  no collaborator is called (no URL is parsed or fetched, no phrase is looked up), and
  the URL flag and the confirmed input stay as they were.
\<close>

theorem blank_input_resets:
  assumes "list_all isWhiteSpace (inputValue s)"
  shows "fst (checkStatusCode e s) = Inr ()
    \<and> trafficLightStatus (snd (checkStatusCode e s)) = Off
    \<and> statusCategory (snd (checkStatusCode e s)) = Invalid
    \<and> history (snd (checkStatusCode e s)) = history s
    \<and> calls (snd (checkStatusCode e s)) = calls s
    \<and> isUrl (snd (checkStatusCode e s)) = isUrl s
    \<and> confirmedInput (snd (checkStatusCode e s)) = confirmedInput s"
proof -
  from assms have "trim (inputValue s) = []"
    by (simp only: trim_eq_Nil)
  then show ?thesis
    by (simp add: checkStatusCode_def)
qed

theorem blank_input_resets_witness:
  "list_all isWhiteSpace (inputValue (handleInputChange ''   '' initialState))
   \<and> trafficLightStatus (snd (checkStatusCode fetchResolves (handleInputChange ''   '' initialState))) = Off
   \<and> history (snd (checkStatusCode fetchResolves (handleInputChange ''   '' initialState)))
       = history (handleInputChange ''   '' initialState)
   \<and> calls (snd (checkStatusCode fetchResolves (handleInputChange ''   '' initialState)))
       = calls (handleInputChange ''   '' initialState)"
proof -
  have blank: "list_all isWhiteSpace (inputValue (handleInputChange ''   '' initialState))"
    by code_simp
  from blank_input_resets [OF blank, of fetchResolves] blank show ?thesis
    by blast
qed




text \<open>
  C7. The claim: after a check whose URL probe fails, the URL flag is false. The code
  writes the flag in two places only, \<^verbatim>\<open>setIsUrl(false)\<close> on the numeric path (line 125)
  and \<^verbatim>\<open>setIsUrl(true)\<close> after a fetch that resolved (line 238); a failed probe leaves
  it as it was. A check of https://example.com with a fetch that resolves sets the flag;
  a second check of the same input with a fetch that rejects yields no code and the
  category invalid, and the flag is still set.
\<close>

theorem flag_survives_failed_probe:
  "isUrl (snd (checkStatusCode fetchResolves (handleInputChange ''https://example.com'' initialState)))
   \<and> probe fetchRejects ''https://example.com'' = None
   \<and> statusCategory (snd (checkStatusCode fetchRejects (handleInputChange ''https://example.com''
        (snd (checkStatusCode fetchResolves (handleInputChange ''https://example.com'' initialState)))))) = Invalid
   \<and> isUrl (snd (checkStatusCode fetchRejects (handleInputChange ''https://example.com''
        (snd (checkStatusCode fetchResolves (handleInputChange ''https://example.com'' initialState))))))"
  by code_simp

text \<open>
  C8. The phrase lookup does not depend on letter case or on surrounding white space:
  \<open>Not Found\<close>, \<open>not found\<close> between spaces and \<open>NOT FOUND\<close> all look up 404; two
  inputs with the same lower-case form look up the same, and white space around an
  input changes nothing. With a URL parser that rejects the three inputs (none has a
  scheme), so that the probe yields nothing, the whole resolution gives 404 for each.
\<close>

theorem lookupPhrase_invariant:
  "lookupPhrase ''Not Found'' = Some (Num 404)
   \<and> lookupPhrase '' not found '' = Some (Num 404)
   \<and> lookupPhrase ''NOT FOUND'' = Some (Num 404)
   \<and> (toLowerCase s = toLowerCase t \<longrightarrow> lookupPhrase s = lookupPhrase t)
   \<and> (list_all isWhiteSpace u \<and> list_all isWhiteSpace v \<longrightarrow> lookupPhrase (u @ s @ v) = lookupPhrase s)
   \<and> (probe e ''Not Found'' = None \<and> probe e '' not found '' = None \<and> probe e ''NOT FOUND'' = None \<longrightarrow>
        resolve e ''Not Found'' = Some (Num 404)
        \<and> resolve e '' not found '' = Some (Num 404)
        \<and> resolve e ''NOT FOUND'' = Some (Num 404))"
proof -
  have k: "lookupPhrase ''Not Found'' = Some (Num 404) \<and> lookupPhrase '' not found '' = Some (Num 404)
      \<and> lookupPhrase ''NOT FOUND'' = Some (Num 404)"
    by code_simp
  have nd: "\<not> digitsOnly ''Not Found'' \<and> \<not> digitsOnly '' not found '' \<and> \<not> digitsOnly ''NOT FOUND''"
    by code_simp
  have "lookupPhrase s = lookupPhrase t" if "toLowerCase s = toLowerCase t"
    unfolding lookupPhrase_def normalize_case [OF that] by (rule refl)
  moreover have "lookupPhrase (u @ s @ v) = lookupPhrase s"
    if "list_all isWhiteSpace u" and "list_all isWhiteSpace v"
    unfolding lookupPhrase_def normalize_pad [OF that] by (rule refl)
  ultimately show ?thesis
    using k nd by (simp add: resolve_eq)
qed

theorem lookupPhrase_invariant_witness:
  "toLowerCase ''Bad Gateway'' = toLowerCase ''bAD gATEWAY''
   \<and> lookupPhrase ''Bad Gateway'' = lookupPhrase ''bAD gATEWAY''
   \<and> list_all isWhiteSpace ''  '' \<and> list_all isWhiteSpace '' ''
   \<and> lookupPhrase (''  '' @ ''Bad Gateway'' @ '' '') = lookupPhrase ''Bad Gateway''
   \<and> probe fetchRejects ''Not Found'' = None
   \<and> resolve fetchRejects ''Not Found'' = Some (Num 404)
   \<and> resolve fetchRejects '' not found '' = Some (Num 404)
   \<and> resolve fetchRejects ''NOT FOUND'' = Some (Num 404)"
proof -
  note inst = lookupPhrase_invariant [where s = "''Bad Gateway''" and t = "''bAD gATEWAY''"
      and u = "''  ''" and v = "'' ''" and e = fetchRejects]
  have c: "toLowerCase ''Bad Gateway'' = toLowerCase ''bAD gATEWAY''"
    by code_simp
  have w: "list_all isWhiteSpace ''  '' \<and> list_all isWhiteSpace '' ''"
    by code_simp
  have p: "probe fetchRejects ''Not Found'' = None \<and> probe fetchRejects '' not found '' = None
      \<and> probe fetchRejects ''NOT FOUND'' = None"
    by code_simp
  from inst c have "lookupPhrase ''Bad Gateway'' = lookupPhrase ''bAD gATEWAY''"
    by blast
  moreover from inst w have "lookupPhrase (''  '' @ ''Bad Gateway'' @ '' '') = lookupPhrase ''Bad Gateway''"
    by blast
  moreover from inst p have "resolve fetchRejects ''Not Found'' = Some (Num 404)
      \<and> resolve fetchRejects '' not found '' = Some (Num 404)
      \<and> resolve fetchRejects ''NOT FOUND'' = Some (Num 404)"
    by blast
  ultimately show ?thesis
    using c w p by blast
qed

text \<open>
  C9. A check that ends in the phrase table (input not blank and not all digits, probe
  failed, phrase found) leaves the URL flag as the check before left it. So when the
  flag is set and the phrase's code shows green (100 to 399), the button "Open URL in a
  new tab" is rendered; in particular after a check whose probe succeeded, followed by
  typing such a phrase and checking again.
\<close>

theorem phrase_path_keeps_isUrl:
  assumes "trim (inputValue s) \<noteq> []" and "\<not> digitsOnly (inputValue s)"
    and "probe e (inputValue s) = None" and "lookupPhrase (inputValue s) = Some (Num c)"
  shows "isUrl (snd (checkStatusCode e s)) = isUrl s
    \<and> (isUrl s \<and> 100 \<le> c \<and> c < 400 \<longrightarrow> showOpenUrlButton (snd (checkStatusCode e s)))
    \<and> (s = handleInputChange (inputValue s) (snd (checkStatusCode e0 s0))
        \<and> trim (inputValue s0) \<noteq> [] \<and> \<not> digitsOnly (inputValue s0)
        \<and> probe e0 (inputValue s0) = Some st \<and> 100 \<le> c \<and> c < 400 \<longrightarrow>
        showOpenUrlButton (snd (checkStatusCode e s)))"
proof -
  from assms have flag: "isUrl (snd (checkStatusCode e s)) = isUrl s"
    by (simp add: checkStatusCode_isUrl)
  from assms have res: "resolve e (inputValue s) = Some (Num c)"
    by (simp add: resolve_eq)
  have green: "trafficLightStatus (snd (checkStatusCode e s)) = Green" if "100 \<le> c" and "c < 400"
    using that assms(1) res checkStatusCode_classified [of s e]
    by (simp add: classify_def)
  have shown: "showOpenUrlButton (snd (checkStatusCode e s))" if "isUrl s" and "100 \<le> c" and "c < 400"
    using that flag green by (simp add: showOpenUrlButton_def)
  have before: "isUrl s"
    if "s = handleInputChange (inputValue s) (snd (checkStatusCode e0 s0))"
      and "trim (inputValue s0) \<noteq> []" and "\<not> digitsOnly (inputValue s0)"
      and "probe e0 (inputValue s0) = Some st"
  proof -
    from that(2-4) have "isUrl (snd (checkStatusCode e0 s0))"
      by (simp add: checkStatusCode_isUrl)
    then have "isUrl (handleInputChange (inputValue s) (snd (checkStatusCode e0 s0)))"
      by (simp add: handleInputChange_def)
    with that(1) show ?thesis by simp
  qed
  from flag shown before show ?thesis
    by blast
qed

theorem phrase_path_keeps_isUrl_witness:
  "probe fetchResolves ''https://example.com'' = Some 200
   \<and> probe fetchResolves ''ok'' = None
   \<and> lookupPhrase ''ok'' = Some (Num 200)
   \<and> isUrl (snd (checkStatusCode fetchResolves (handleInputChange ''https://example.com'' initialState)))
   \<and> isUrl (snd (checkStatusCode fetchResolves (handleInputChange ''ok''
        (snd (checkStatusCode fetchResolves (handleInputChange ''https://example.com'' initialState))))))
   \<and> showOpenUrlButton (snd (checkStatusCode fetchResolves (handleInputChange ''ok''
        (snd (checkStatusCode fetchResolves (handleInputChange ''https://example.com'' initialState))))))"
proof -
  let ?first = "handleInputChange ''https://example.com'' initialState"
  let ?after = "snd (checkStatusCode fetchResolves ?first)"
  let ?second = "handleInputChange ''ok'' ?after"
  have h1: "trim (inputValue ?second) \<noteq> []"
    by code_simp
  have h2: "\<not> digitsOnly (inputValue ?second)"
    by code_simp
  have h3: "probe fetchResolves (inputValue ?second) = None"
    by code_simp
  have h4: "lookupPhrase (inputValue ?second) = Some (Num 200)"
    by code_simp
  have same: "?second = handleInputChange (inputValue ?second) ?after"
    by (simp add: handleInputChange_def)
  have url: "trim (inputValue ?first) \<noteq> [] \<and> \<not> digitsOnly (inputValue ?first)
      \<and> probe fetchResolves (inputValue ?first) = Some 200"
    by code_simp
  note prev = conjI [OF same url]
  have flag: "isUrl ?after"
    by code_simp
  have names: "inputValue ?second = ''ok'' \<and> inputValue ?first = ''https://example.com''"
    by code_simp
  note two_checks = phrase_path_keeps_isUrl [OF h1 h2 h3 h4, of fetchResolves ?first 200]
  from two_checks prev have "showOpenUrlButton (snd (checkStatusCode fetchResolves ?second))"
    by simp
  moreover from two_checks flag have "isUrl (snd (checkStatusCode fetchResolves ?second))"
    by (simp add: handleInputChange_def)
  ultimately show ?thesis
    using h3 h4 prev flag names by simp
qed

text \<open>
  C10. The claim: the history grows only when a numeric code is resolved. The lookup of
  line 133 reads the phrase table as a plain object, so the input \<open>constructor\<close>, which
  is no number, no URL and no phrase of the table, finds the function inherited under
  that name: \<^verbatim>\<open>statusCode\<close> is not \<^verbatim>\<open>null\<close>, and line 140 appends an entry whose code
  is that function, while the check shows orange and invalid. The digits 9999 do
  resolve to the number 9999 and append one entry, as the claim says.
\<close>

theorem inherited_key_appended:
  "probe fetchRejects ''constructor'' = None
   \<and> map_of statusCodeMap (normalize ''constructor'') = None
   \<and> resolve fetchRejects ''constructor'' = Some (Inherited ''constructor'')
   \<and> history (snd (checkStatusCode fetchRejects (handleInputChange ''constructor'' initialState)))
       = [\<lparr>code = Inherited ''constructor'', category = Invalid, timestamp = 0\<rparr>]
   \<and> trafficLightStatus (snd (checkStatusCode fetchRejects (handleInputChange ''constructor'' initialState)))
       = Orange
   \<and> statusCategory (snd (checkStatusCode fetchRejects (handleInputChange ''constructor'' initialState)))
       = Invalid
   \<and> resolve fetchRejects ''9999'' = Some (Num 9999)
   \<and> history (snd (checkStatusCode fetchRejects (handleInputChange ''9999'' initialState)))
       = [\<lparr>code = Num 9999, category = Invalid, timestamp = 0\<rparr>]"
  by code_simp

end
